theory Spec2Isabelle
  imports Complex_Main "HOL-Library.Word"
begin

section \<open>JavaScript values handled by the species form\<close>

text \<open>
  A JavaScript string is a sequence of 16-bit code units.  \<open>js\<close> embeds an ASCII
  literal of the source.
\<close>

type_synonym jsstring = "16 word list"

definition js :: "string \<Rightarrow> jsstring" where
  "js s = map of_char s"

text \<open>
  A JavaScript number: the finite values are kept as rationals (every finite double is
  one), the three non-finite values are separate.
\<close>

datatype jsnum = Finite rat | NaN | PosInf | NegInf

datatype jsval = JUndefined | JNull | JBool bool | JNum jsnum | JStr jsstring

text \<open>
  \<open>String.prototype.trim\<close> strips WhiteSpace and LineTerminator code units from
  both ends: TAB, LF, VT, FF, CR, SP, NBSP, U+1680, U+2000..U+200A, U+2028, U+2029,
  U+202F, U+205F, U+3000 and U+FEFF.
\<close>

definition is_whitespace :: "16 word \<Rightarrow> bool" where
  "is_whitespace c \<longleftrightarrow>
     (0x09 \<le> c \<and> c \<le> 0x0D) \<or> c = 0x20 \<or> c = 0xA0 \<or> c = 0x1680 \<or>
     (0x2000 \<le> c \<and> c \<le> 0x200A) \<or> c = 0x2028 \<or> c = 0x2029 \<or> c = 0x202F \<or>
     c = 0x205F \<or> c = 0x3000 \<or> c = 0xFEFF"

definition trim :: "jsstring \<Rightarrow> jsstring" where
  "trim s = rev (dropWhile is_whitespace (rev (dropWhile is_whitespace s)))"

section \<open>The runtime's URL parser, as far as \<open>new URL(s)\<close> throws or not\<close>

text \<open>
  zod's \<open>.url()\<close> check accepts a string exactly when \<open>new URL(s)\<close> does not
  throw.  The constructor runs the basic URL parser of the URL standard without a base
  URL.  Its scheme, authority, host, port and file states are written out below; the
  path, query and fragment states never fail.  The parsing of a bracketed IPv6 literal
  and of the domain of a special scheme (percent-decoding, IDNA, IPv4) is not embedded:
  it is the parameter \<open>hp\<close>, which says whether the host string is accepted.
\<close>

definition c0_control_or_space :: "16 word \<Rightarrow> bool" where
  "c0_control_or_space c \<longleftrightarrow> c \<le> 0x20"

definition ascii_tab_or_newline :: "16 word \<Rightarrow> bool" where
  "ascii_tab_or_newline c \<longleftrightarrow> c = 0x09 \<or> c = 0x0A \<or> c = 0x0D"

definition ascii_alpha :: "16 word \<Rightarrow> bool" where
  "ascii_alpha c \<longleftrightarrow> (0x41 \<le> c \<and> c \<le> 0x5A) \<or> (0x61 \<le> c \<and> c \<le> 0x7A)"

definition ascii_digit :: "16 word \<Rightarrow> bool" where
  "ascii_digit c \<longleftrightarrow> 0x30 \<le> c \<and> c \<le> 0x39"

definition scheme_char :: "16 word \<Rightarrow> bool" where
  "scheme_char c \<longleftrightarrow> ascii_alpha c \<or> ascii_digit c \<or> c = 0x2B \<or> c = 0x2D \<or> c = 0x2E"

definition ascii_lower :: "16 word \<Rightarrow> 16 word" where
  "ascii_lower c = (if 0x41 \<le> c \<and> c \<le> 0x5A then c + 0x20 else c)"

definition is_slash :: "16 word \<Rightarrow> bool" where
  "is_slash c \<longleftrightarrow> c = 0x2F \<or> c = 0x5C"

definition forbidden_host_code_point :: "16 word \<Rightarrow> bool" where
  "forbidden_host_code_point c \<longleftrightarrow>
     c = 0x00 \<or> c = 0x09 \<or> c = 0x0A \<or> c = 0x0D \<or> c = 0x20 \<or> c = 0x23 \<or> c = 0x2F \<or>
     c = 0x3A \<or> c = 0x3C \<or> c = 0x3E \<or> c = 0x3F \<or> c = 0x40 \<or> c = 0x5B \<or> c = 0x5C \<or>
     c = 0x5D \<or> c = 0x5E \<or> c = 0x7C"

text \<open>Leading and trailing C0 controls and spaces are removed, then every tab and newline.\<close>

definition url_strip :: "jsstring \<Rightarrow> jsstring" where
  "url_strip s =
     filter (\<lambda>c. \<not> ascii_tab_or_newline c)
       (rev (dropWhile c0_control_or_space (rev (dropWhile c0_control_or_space s))))"

text \<open>
  Scheme start state and scheme state: an ASCII letter, then letters, digits, \<open>+\<close>,
  \<open>-\<close>, \<open>.\<close> up to a colon.  Anything else is the no-scheme state, which fails
  without a base URL.  The result is the lower-cased scheme and what follows the colon.
\<close>

definition split_scheme :: "jsstring \<Rightarrow> (jsstring \<times> jsstring) option" where
  "split_scheme s =
     (case s of
        [] \<Rightarrow> None
      | c # _ \<Rightarrow>
          if \<not> ascii_alpha c then None
          else (case dropWhile scheme_char s of
                  [] \<Rightarrow> None
                | d # rest \<Rightarrow>
                    if d = 0x3A then Some (map ascii_lower (takeWhile scheme_char s), rest)
                    else None))"

definition special_schemes :: "jsstring list" where
  "special_schemes = map js [''ftp'', ''file'', ''http'', ''https'', ''ws'', ''wss'']"

definition authority_end :: "bool \<Rightarrow> 16 word \<Rightarrow> bool" where
  "authority_end special c \<longleftrightarrow> c = 0x2F \<or> c = 0x3F \<or> c = 0x23 \<or> (special \<and> c = 0x5C)"

text \<open>The host parser: \<open>opaque\<close> is true for a scheme that is not special.\<close>

definition host_parse :: "(jsstring \<Rightarrow> bool) \<Rightarrow> bool \<Rightarrow> jsstring \<Rightarrow> bool" where
  "host_parse hp opaque h =
     (if (h \<noteq> [] \<and> hd h = 0x5B) \<or> \<not> opaque then hp h
      else \<not> list_ex forbidden_host_code_point h)"

text \<open>
  Host state: the buffer runs to the first colon outside square brackets.
  \<open>split_host inside buf s\<close> returns the buffer and, when a colon ended it, the rest.
\<close>

fun split_host :: "bool \<Rightarrow> jsstring \<Rightarrow> jsstring \<Rightarrow> jsstring \<times> jsstring option" where
  "split_host inside buf [] = (buf, None)"
| "split_host inside buf (c # cs) =
     (if c = 0x3A \<and> \<not> inside then (buf, Some cs)
      else split_host (if c = 0x5B then True else if c = 0x5D then False else inside)
             (buf @ [c]) cs)"

text \<open>Port state: only digits up to the end of the authority, and at most 65535.\<close>

definition digits_value :: "jsstring \<Rightarrow> nat" where
  "digits_value p = foldl (\<lambda>n c. 10 * n + (unat c - 48)) 0 p"

definition port_ok :: "jsstring \<Rightarrow> bool" where
  "port_ok p \<longleftrightarrow> list_all ascii_digit p \<and> (p = [] \<or> digits_value p \<le> 65535)"

definition host_state :: "(jsstring \<Rightarrow> bool) \<Rightarrow> bool \<Rightarrow> jsstring \<Rightarrow> bool" where
  "host_state hp special hostport =
     (case split_host False [] hostport of
        (buf, Some port) \<Rightarrow> buf \<noteq> [] \<and> host_parse hp (\<not> special) buf \<and> port_ok port
      | (buf, None) \<Rightarrow> \<not> (special \<and> buf = []) \<and> host_parse hp (\<not> special) buf)"

text \<open>
  Authority state: the authority runs to the first \<open>/\<close>, \<open>?\<close>, \<open>#\<close> (or \<open>\\<close> for a
  special scheme); what precedes its last \<open>@\<close> is the credentials.  An \<open>@\<close> with
  nothing after it is a missing host.
\<close>

definition after_last_at :: "jsstring \<Rightarrow> jsstring" where
  "after_last_at a = rev (takeWhile (\<lambda>c. c \<noteq> 0x40) (rev a))"

definition authority_state :: "(jsstring \<Rightarrow> bool) \<Rightarrow> bool \<Rightarrow> jsstring \<Rightarrow> bool" where
  "authority_state hp special r =
     (let a = takeWhile (\<lambda>c. \<not> authority_end special c) r;
          hostport = after_last_at a
      in \<not> (list_ex (\<lambda>c. c = 0x40) a \<and> hostport = []) \<and> host_state hp special hostport)"

text \<open>File, file slash and file host states.\<close>

definition windows_drive_letter :: "jsstring \<Rightarrow> bool" where
  "windows_drive_letter b \<longleftrightarrow>
     (case b of [c, d] \<Rightarrow> ascii_alpha c \<and> (d = 0x3A \<or> d = 0x7C) | _ \<Rightarrow> False)"

definition file_state :: "(jsstring \<Rightarrow> bool) \<Rightarrow> jsstring \<Rightarrow> bool" where
  "file_state hp r =
     (case r of
        c # d # rest \<Rightarrow>
          if is_slash c \<and> is_slash d then
            (let buf = takeWhile (\<lambda>c. \<not> authority_end True c) rest
             in windows_drive_letter buf \<or> buf = [] \<or> host_parse hp False buf)
          else True
      | _ \<Rightarrow> True)"

definition new_URL_ok :: "(jsstring \<Rightarrow> bool) \<Rightarrow> jsstring \<Rightarrow> bool" where
  "new_URL_ok hp s =
     (case split_scheme (url_strip s) of
        None \<Rightarrow> False
      | Some (scheme, r) \<Rightarrow>
          if scheme = js ''file'' then file_state hp r
          else if scheme \<in> set special_schemes then
            authority_state hp True (dropWhile is_slash r)
          else (case r of
                  c # d # rest \<Rightarrow>
                    if c = 0x2F \<and> d = 0x2F then authority_state hp False rest else True
                | _ \<Rightarrow> True))"

section \<open>The schema \<open>speciesSchema\<close>\<close>

text \<open>
  The issues zod reports: \<open>Not_integer\<close> is the issue of \<open>.int()\<close>,
  \<open>Too_small m inclusive\<close> that of \<open>.min\<close> and \<open>.positive\<close>, \<open>Invalid_url\<close>
  that of \<open>.url()\<close>, \<open>Invalid_type\<close> that of a value of the wrong JavaScript type.
\<close>

datatype issue = Invalid_type | Not_integer | Too_small int bool | Invalid_url | Invalid_enum_value

datatype fieldname =
  F_scientific_name | F_common_name | F_kingdom | F_total_population | F_image | F_description

text \<open>\<open>FormData\<close>, the output type of the schema; \<open>None\<close> is \<open>null\<close>.\<close>

record FormData =
  scientific_name :: jsstring
  common_name :: "jsstring option"
  kingdom :: jsstring
  total_population :: "jsnum option"
  image :: "jsstring option"
  description :: "jsstring option"

definition kingdoms :: "jsstring list" where
  "kingdoms = map js [''Animalia'', ''Plantae'', ''Fungi'', ''Protista'', ''Archaea'', ''Bacteria'']"

text \<open>
  The transform of the three nullable text fields:
  \<^verbatim>\<open>(val) => (!val || val.trim() === "" ? null : val.trim())\<close>.
\<close>

definition blank_to_null :: "jsstring option \<Rightarrow> jsstring option" where
  "blank_to_null val =
     (case val of
        None \<Rightarrow> None
      | Some s \<Rightarrow> if s = [] \<or> trim s = [] then None else Some (trim s))"

text \<open>\<^verbatim>\<open>z.string().trim().min(1).transform((val) => val?.trim())\<close>\<close>

definition scientific_name_schema :: "jsval \<Rightarrow> issue list + jsstring" where
  "scientific_name_schema v =
     (case v of
        JStr s \<Rightarrow> (let t = trim s in if length t < 1 then Inl [Too_small 1 True] else Inr (trim t))
      | _ \<Rightarrow> Inl [Invalid_type])"

text \<open>\<^verbatim>\<open>z.string().nullable().transform(...)\<close>, for \<open>common_name\<close> and \<open>description\<close>.\<close>

definition nullable_text_schema :: "jsval \<Rightarrow> issue list + jsstring option" where
  "nullable_text_schema v =
     (case v of
        JNull \<Rightarrow> Inr (blank_to_null None)
      | JStr s \<Rightarrow> Inr (blank_to_null (Some s))
      | _ \<Rightarrow> Inl [Invalid_type])"

text \<open>\<^verbatim>\<open>z.enum([...])\<close>\<close>

definition kingdom_schema :: "jsval \<Rightarrow> issue list + jsstring" where
  "kingdom_schema v =
     (case v of
        JStr s \<Rightarrow> if s \<in> set kingdoms then Inr s else Inl [Invalid_enum_value]
      | _ \<Rightarrow> Inl [Invalid_type])"

text \<open>
  \<^verbatim>\<open>z.number().int().positive().min(1).nullable()\<close>: \<open>NaN\<close> is not of type number for
  zod; the three checks all run and each adds its issue.
\<close>

fun is_integer :: "jsnum \<Rightarrow> bool" where
  "is_integer (Finite r) = (of_int \<lfloor>r\<rfloor> = r)"
| "is_integer _ = False"

fun num_less :: "jsnum \<Rightarrow> rat \<Rightarrow> bool" where
  "num_less (Finite r) q = (r < q)"
| "num_less NegInf q = True"
| "num_less _ q = False"

fun num_le :: "jsnum \<Rightarrow> rat \<Rightarrow> bool" where
  "num_le (Finite r) q = (r \<le> q)"
| "num_le NegInf q = True"
| "num_le _ q = False"

definition number_checks :: "jsnum \<Rightarrow> issue list" where
  "number_checks n =
     (if is_integer n then [] else [Not_integer]) @
     (if num_le n 0 then [Too_small 0 False] else []) @
     (if num_less n 1 then [Too_small 1 True] else [])"

definition total_population_schema :: "jsval \<Rightarrow> issue list + jsnum option" where
  "total_population_schema v =
     (case v of
        JNull \<Rightarrow> Inr None
      | JNum n \<Rightarrow>
          if n = NaN then Inl [Invalid_type]
          else if number_checks n = [] then Inr (Some n)
          else Inl (number_checks n)
      | _ \<Rightarrow> Inl [Invalid_type])"

text \<open>\<^verbatim>\<open>z.string().url().nullable().transform(...)\<close>: the URL check sees the string as typed.\<close>

definition image_schema :: "(jsstring \<Rightarrow> bool) \<Rightarrow> jsval \<Rightarrow> issue list + jsstring option" where
  "image_schema hp v =
     (case v of
        JNull \<Rightarrow> Inr (blank_to_null None)
      | JStr s \<Rightarrow> if new_URL_ok hp s then Inr (blank_to_null (Some s)) else Inl [Invalid_url]
      | _ \<Rightarrow> Inl [Invalid_type])"

text \<open>The form's values: a JavaScript object with one property for each field.\<close>

type_synonym formvalues = "fieldname \<Rightarrow> jsval"

definition issues_of :: "issue list + 'a \<Rightarrow> issue list" where
  "issues_of r = (case r of Inl is \<Rightarrow> is | Inr _ \<Rightarrow> [])"

fun field_issues :: "(jsstring \<Rightarrow> bool) \<Rightarrow> fieldname \<Rightarrow> jsval \<Rightarrow> issue list" where
  "field_issues hp F_scientific_name v = issues_of (scientific_name_schema v)"
| "field_issues hp F_common_name v = issues_of (nullable_text_schema v)"
| "field_issues hp F_kingdom v = issues_of (kingdom_schema v)"
| "field_issues hp F_total_population v = issues_of (total_population_schema v)"
| "field_issues hp F_image v = issues_of (image_schema hp v)"
| "field_issues hp F_description v = issues_of (nullable_text_schema v)"

definition field_names :: "fieldname list" where
  "field_names = [F_scientific_name, F_common_name, F_kingdom, F_total_population, F_image, F_description]"

definition all_issues :: "(jsstring \<Rightarrow> bool) \<Rightarrow> formvalues \<Rightarrow> (fieldname \<times> issue) list" where
  "all_issues hp d = concat (map (\<lambda>f. map (Pair f) (field_issues hp f (d f))) field_names)"

text \<open>
  \<open>z.object\<close> parses every property and collects the issues with their path; the
  parsed object is the result only when no property has an issue.
\<close>

definition speciesSchema :: "(jsstring \<Rightarrow> bool) \<Rightarrow> formvalues \<Rightarrow> (fieldname \<times> issue) list + FormData" where
  "speciesSchema hp d =
     (case scientific_name_schema (d F_scientific_name) of
        Inl _ \<Rightarrow> Inl (all_issues hp d)
      | Inr sn \<Rightarrow>
     (case nullable_text_schema (d F_common_name) of
        Inl _ \<Rightarrow> Inl (all_issues hp d)
      | Inr cn \<Rightarrow>
     (case kingdom_schema (d F_kingdom) of
        Inl _ \<Rightarrow> Inl (all_issues hp d)
      | Inr k \<Rightarrow>
     (case total_population_schema (d F_total_population) of
        Inl _ \<Rightarrow> Inl (all_issues hp d)
      | Inr tp \<Rightarrow>
     (case image_schema hp (d F_image) of
        Inl _ \<Rightarrow> Inl (all_issues hp d)
      | Inr im \<Rightarrow>
     (case nullable_text_schema (d F_description) of
        Inl _ \<Rightarrow> Inl (all_issues hp d)
      | Inr de \<Rightarrow>
          Inr \<lparr>scientific_name = sn, common_name = cn, kingdom = k,
               total_population = tp, image = im, description = de\<rparr>))))))"

text \<open>A parsed object as form values again, as \<open>form.reset(input)\<close> stores it.\<close>

definition nullable_str :: "jsstring option \<Rightarrow> jsval" where
  "nullable_str v = (case v of None \<Rightarrow> JNull | Some s \<Rightarrow> JStr s)"

definition nullable_num :: "jsnum option \<Rightarrow> jsval" where
  "nullable_num v = (case v of None \<Rightarrow> JNull | Some n \<Rightarrow> JNum n)"

fun as_values :: "'a FormData_scheme \<Rightarrow> formvalues" where
  "as_values p F_scientific_name = JStr (scientific_name p)"
| "as_values p F_common_name = nullable_str (common_name p)"
| "as_values p F_kingdom = JStr (kingdom p)"
| "as_values p F_total_population = nullable_num (total_population p)"
| "as_values p F_image = nullable_str (image p)"
| "as_values p F_description = nullable_str (description p)"

section \<open>The component \<open>SpeciesDetailsDialog\<close>\<close>

text \<open>
  The \<open>species\<close> prop: a row of the table, which has the fields of \<open>FormData\<close>, the
  primary key and the author's user id.
\<close>

record species = FormData +
  species_id :: int
  author :: string

text \<open>
  The state of \<open>useForm\<close>: the current values, the default values and the first issue
  of each field (what \<open>FormMessage\<close> shows).
\<close>

record form_state =
  form_values :: formvalues
  form_defaults :: formvalues
  form_errors :: "fieldname \<Rightarrow> issue option"

text \<open>
  An asynchronous handler stops at its \<open>await\<close> until the remote call settles.  A
  \<open>request\<close> is such a suspended handler with the variables it has captured.
\<close>

datatype request = Update_request FormData | Delete_request

record state =
  isEditing :: bool
  form :: form_state
  awaiting :: "request list"

text \<open>What a handler does to the world outside the component, in program order.\<close>

datatype effect =
    Remote_update int FormData
  | Remote_delete int
  | Toast jsstring jsstring bool
  | Alert jsstring
  | Router_refresh

definition defaultValues :: "species \<Rightarrow> formvalues" where
  "defaultValues sp = as_values sp"

definition form_reset :: "formvalues \<Rightarrow> form_state" where
  "form_reset vals = \<lparr>form_values = vals, form_defaults = vals, form_errors = (\<lambda>_. None)\<rparr>"

definition initial :: "species \<Rightarrow> state" where
  "initial sp = \<lparr>isEditing = False, form = form_reset (defaultValues sp), awaiting = []\<rparr>"

text \<open>The resolver keeps, for each field, the first issue zod reports for it.\<close>

definition first_issue :: "(fieldname \<times> issue) list \<Rightarrow> fieldname \<Rightarrow> issue option" where
  "first_issue issues f = map_option snd (find (\<lambda>fi. fst fi = f) issues)"

text \<open>
  \<open>onSubmit\<close>, up to its \<open>await\<close> and from there on.  \<open>error\<close> is the message of the
  error the remote call returned, if it returned one.
\<close>

definition onSubmit_call :: "species \<Rightarrow> FormData \<Rightarrow> state \<Rightarrow> state \<times> effect list" where
  "onSubmit_call sp input s =
     (s\<lparr>awaiting := awaiting s @ [Update_request input]\<rparr>, [Remote_update (species_id sp) input])"

definition onSubmit_resume :: "FormData \<Rightarrow> jsstring option \<Rightarrow> state \<Rightarrow> state \<times> effect list" where
  "onSubmit_resume input error s =
     (case error of
        Some message \<Rightarrow> (s, [Toast (js ''Something went wrong.'') message True])
      | None \<Rightarrow>
          (s\<lparr>isEditing := False, form := form_reset (as_values input)\<rparr>,
           [Router_refresh,
            Toast (js ''Changes saved!'')
              (js ''Saved your changes to '' @ scientific_name input @ js ''.'') False]))"

text \<open>
  \<open>form.handleSubmit(onSubmit)\<close>: the resolver runs the schema on the current values;
  with issues they become the form's errors and \<open>onSubmit\<close> is not called, without
  issues \<open>onSubmit\<close> is called with the parsed object.
\<close>

definition handleSubmit :: "(jsstring \<Rightarrow> bool) \<Rightarrow> species \<Rightarrow> state \<Rightarrow> state \<times> effect list" where
  "handleSubmit hp sp s =
     (case speciesSchema hp (form_values (form s)) of
        Inl issues \<Rightarrow> (s\<lparr>form := (form s)\<lparr>form_errors := first_issue issues\<rparr>\<rparr>, [])
      | Inr input \<Rightarrow> onSubmit_call sp input (s\<lparr>form := (form s)\<lparr>form_errors := (\<lambda>_. None)\<rparr>\<rparr>))"

definition startEditing :: "state \<Rightarrow> state \<times> effect list" where
  "startEditing s = (s\<lparr>isEditing := True\<rparr>, [])"

text \<open>\<open>confirmed\<close> is the answer of \<open>window.confirm\<close>.\<close>

definition handleCancel :: "species \<Rightarrow> bool \<Rightarrow> state \<Rightarrow> state \<times> effect list" where
  "handleCancel sp confirmed s =
     (if \<not> confirmed then (s, [])
      else (s\<lparr>form := form_reset (defaultValues sp), isEditing := False\<rparr>, []))"

text \<open>\<open>handleDelete\<close>, up to its \<open>await\<close> and from there on.\<close>

definition handleDelete_call :: "species \<Rightarrow> bool \<Rightarrow> state \<Rightarrow> state \<times> effect list" where
  "handleDelete_call sp confirmed s =
     (if confirmed then
        (s\<lparr>awaiting := awaiting s @ [Delete_request]\<rparr>, [Remote_delete (species_id sp)])
      else (s, []))"

definition handleDelete_resume :: "species \<Rightarrow> jsstring option \<Rightarrow> state \<Rightarrow> state \<times> effect list" where
  "handleDelete_resume sp error s =
     (s\<lparr>isEditing := False\<rparr>,
      (case error of
         Some _ \<Rightarrow> [Alert (js ''An error occurred while deleting the species.'')]
       | None \<Rightarrow> []) @
      [Router_refresh,
       Toast (js ''Species deleted successfully.'')
         (js ''The species'' @ scientific_name sp @ js ''has been deleted.'') False])"

subsection \<open>What is rendered\<close>

text \<open>
  The props each field's control receives.  \<open>readOnly_prop\<close> is \<open>None\<close> where the JSX
  passes no \<open>readOnly\<close>; such a control is not read-only.
\<close>

datatype widget = Input | Textarea | Select

record control =
  widget :: widget
  readOnly_prop :: "bool option"
  value_prop :: jsval

definition read_only :: "control \<Rightarrow> bool" where
  "read_only c \<longleftrightarrow> readOnly_prop c = Some True"

text \<open>\<^verbatim>\<open>value ?? ""\<close>\<close>

definition or_empty :: "jsval \<Rightarrow> jsval" where
  "or_empty v = (if v = JNull \<or> v = JUndefined then JStr [] else v)"

fun field_control :: "state \<Rightarrow> fieldname \<Rightarrow> control" where
  "field_control s F_scientific_name =
     \<lparr>widget = Input, readOnly_prop = Some (\<not> isEditing s),
      value_prop = form_values (form s) F_scientific_name\<rparr>"
| "field_control s F_common_name =
     \<lparr>widget = Input, readOnly_prop = Some (\<not> isEditing s),
      value_prop = or_empty (form_values (form s) F_common_name)\<rparr>"
| "field_control s F_kingdom =
     \<lparr>widget = Select, readOnly_prop = None, value_prop = form_values (form s) F_kingdom\<rparr>"
| "field_control s F_total_population =
     \<lparr>widget = Input, readOnly_prop = Some (\<not> isEditing s),
      value_prop = or_empty (form_values (form s) F_total_population)\<rparr>"
| "field_control s F_image =
     \<lparr>widget = Input, readOnly_prop = Some (\<not> isEditing s),
      value_prop = or_empty (form_values (form s) F_image)\<rparr>"
| "field_control s F_description =
     \<lparr>widget = Textarea, readOnly_prop = Some (\<not> isEditing s),
      value_prop = or_empty (form_values (form s) F_description)\<rparr>"

text \<open>The buttons of the edit/delete block.\<close>

datatype button = Confirm | Cancel | Edit_Species | Delete_Species

definition buttons :: "species \<Rightarrow> string \<Rightarrow> state \<Rightarrow> button list" where
  "buttons sp currentUser s =
     (if author sp = currentUser then
        (if isEditing s then [Confirm, Cancel] else [Edit_Species, Delete_Species])
      else [])"

subsection \<open>Change handlers\<close>

text \<open>
  Unary plus on a string: white space is stripped, the empty string is \<open>0\<close>.  The
  value of a non-empty numeric literal (and \<open>NaN\<close> for any other text) is the
  parameter \<open>lit\<close>.
\<close>

definition unary_plus :: "(jsstring \<Rightarrow> jsnum) \<Rightarrow> jsstring \<Rightarrow> jsnum" where
  "unary_plus lit s = (if trim s = [] then Finite 0 else lit (trim s))"

text \<open>
  The value a control hands to \<open>field.onChange\<close> when the user enters \<open>text\<close>.  For
  the kingdom it is \<open>kingdoms.parse(value)\<close>, which throws outside the enumeration:
  then \<open>onChange\<close> is not reached.
\<close>

fun changed_value :: "(jsstring \<Rightarrow> jsnum) \<Rightarrow> fieldname \<Rightarrow> jsstring \<Rightarrow> jsval option" where
  "changed_value lit F_total_population text = Some (JNum (unary_plus lit text))"
| "changed_value lit F_kingdom text =
     (case kingdom_schema (JStr text) of Inl _ \<Rightarrow> None | Inr k \<Rightarrow> Some (JStr k))"
| "changed_value lit f text = Some (JStr text)"

text \<open>
  \<open>field.onChange\<close> with \<open>mode: "onChange"\<close>: the value is stored, the resolver runs
  and the error of this field is updated.
\<close>

definition field_onChange :: "(jsstring \<Rightarrow> bool) \<Rightarrow> fieldname \<Rightarrow> jsval \<Rightarrow> state \<Rightarrow> state" where
  "field_onChange hp f v s =
     (let vals = (form_values (form s))(f := v)
      in s\<lparr>form := (form s)\<lparr>form_values := vals,
                form_errors := (form_errors (form s))(f := first_issue (all_issues hp vals) f)\<rparr>\<rparr>)"

subsection \<open>Events\<close>

text \<open>
  A click on a rendered button (with the answer the user gives if the handler asks for
  confirmation), an edit of a control that is not read-only, or the settling of the
  \<open>i\<close>-th awaited remote call with the error it returns, if any.
\<close>

datatype event = Click button bool | Change fieldname jsstring | Settle nat "jsstring option"

definition resume :: "species \<Rightarrow> request \<Rightarrow> jsstring option \<Rightarrow> state \<Rightarrow> state \<times> effect list" where
  "resume sp r error s =
     (case r of
        Update_request input \<Rightarrow> onSubmit_resume input error s
      | Delete_request \<Rightarrow> handleDelete_resume sp error s)"

fun click :: "(jsstring \<Rightarrow> bool) \<Rightarrow> species \<Rightarrow> button \<Rightarrow> bool \<Rightarrow> state \<Rightarrow> state \<times> effect list" where
  "click hp sp Confirm answer s = handleSubmit hp sp s"
| "click hp sp Cancel answer s = handleCancel sp answer s"
| "click hp sp Edit_Species answer s = startEditing s"
| "click hp sp Delete_Species answer s = handleDelete_call sp answer s"

fun step ::
  "(jsstring \<Rightarrow> bool) \<Rightarrow> (jsstring \<Rightarrow> jsnum) \<Rightarrow> species \<Rightarrow> string \<Rightarrow> state \<Rightarrow> event \<Rightarrow>
     (state \<times> effect list) option" where
  "step hp lit sp currentUser s (Click b answer) =
     (if b \<in> set (buttons sp currentUser s) then Some (click hp sp b answer s) else None)"
| "step hp lit sp currentUser s (Change f text) =
     (if read_only (field_control s f) then None
      else map_option (\<lambda>v. (field_onChange hp f v s, [])) (changed_value lit f text))"
| "step hp lit sp currentUser s (Settle i error) =
     (if i < length (awaiting s) then
        Some (resume sp (awaiting s ! i) error
                (s\<lparr>awaiting := take i (awaiting s) @ drop (Suc i) (awaiting s)\<rparr>))
      else None)"

text \<open>A run: the events in order, the effects concatenated; \<open>None\<close> if an event is not possible.\<close>

fun run ::
  "(jsstring \<Rightarrow> bool) \<Rightarrow> (jsstring \<Rightarrow> jsnum) \<Rightarrow> species \<Rightarrow> string \<Rightarrow> state \<Rightarrow> event list \<Rightarrow>
     (state \<times> effect list) option" where
  "run hp lit sp currentUser s [] = Some (s, [])"
| "run hp lit sp currentUser s (ev # evs) =
     (case step hp lit sp currentUser s ev of
        None \<Rightarrow> None
      | Some (s', out) \<Rightarrow>
          map_option (\<lambda>(s'', out'). (s'', out @ out')) (run hp lit sp currentUser s' evs))"

text \<open>The record of the specification's scenarios.\<close>

definition panthera_leo :: species where
  "panthera_leo =
     \<lparr>scientific_name = js '' Panthera leo '', common_name = None, kingdom = js ''Animalia'',
      total_population = Some (Finite 20000), image = None, description = None,
      species_id = 7, author = ''u1''\<rparr>"

text \<open>A draft with white space around its texts, and what the schema makes of it.\<close>

definition url_demo :: formvalues where
  "url_demo = (defaultValues panthera_leo)
     (F_common_name := JStr (js ''  Lion ''), F_image := JStr (js '' https://example.org/leo.png  ''),
      F_description := JStr (js ''   ''))"

definition url_demo_parsed :: FormData where
  "url_demo_parsed =
     \<lparr>scientific_name = js ''Panthera leo'', common_name = Some (js ''Lion''),
      kingdom = js ''Animalia'', total_population = Some (Finite 20000),
      image = Some (js ''https://example.org/leo.png''), description = None\<rparr>"

text \<open>A URL of a scheme that is not special, with credentials and a no-break space as host.\<close>

definition nbsp_host :: formvalues where
  "nbsp_host = (defaultValues panthera_leo)(F_image := JStr (js ''foo://u@'' @ [0xA0]))"

definition nbsp_host_parsed :: FormData where
  "nbsp_host_parsed =
     \<lparr>scientific_name = js ''Panthera leo'', common_name = None,
      kingdom = js ''Animalia'', total_population = Some (Finite 20000),
      image = Some (js ''foo://u@''), description = None\<rparr>"

text \<open>
  States of the dialog for the row of the scenarios, opened by its author \<open>u1\<close>: in
  edit mode, in edit mode with an update awaiting its response, outside edit mode with
  a delete awaiting its response, and in edit mode with the population set to \<open>-5\<close>.
\<close>

definition panthera_leo_parsed :: FormData where
  "panthera_leo_parsed =
     \<lparr>scientific_name = js ''Panthera leo'', common_name = None,
      kingdom = js ''Animalia'', total_population = Some (Finite 20000),
      image = None, description = None\<rparr>"

definition editing_leo :: state where
  "editing_leo = (initial panthera_leo)\<lparr>isEditing := True\<rparr>"

definition editing_leo_busy :: state where
  "editing_leo_busy = editing_leo\<lparr>awaiting := [Update_request panthera_leo_parsed]\<rparr>"

definition viewing_leo_busy :: state where
  "viewing_leo_busy = (initial panthera_leo)\<lparr>awaiting := [Delete_request]\<rparr>"

definition editing_leo_negative :: state where
  "editing_leo_negative =
     editing_leo\<lparr>form := (form editing_leo)
       \<lparr>form_values := (defaultValues panthera_leo)(F_total_population := JNum (Finite (- 5)))\<rparr>\<rparr>"

text \<open>An edit of the population input, and two of them: \<open>12\<close> entered, then cleared.\<close>

fun population_edit :: "event \<Rightarrow> bool" where
  "population_edit (Change f text) = (f = F_total_population)"
| "population_edit _ = False"

definition clearing_edits :: "event list" where
  "clearing_edits = [Change F_total_population (js ''12''), Change F_total_population []]"

section \<open>Trimming\<close>

lemma trim_Nil_iff: "trim s = [] \<longleftrightarrow> list_all is_whitespace s"
proof
  assume "trim s = []"
  then have all: "\<forall>x\<in>set (dropWhile is_whitespace s). is_whitespace x"
    by (simp add: trim_def)
  have "dropWhile is_whitespace s = []"
  proof (rule ccontr)
    assume ne: "dropWhile is_whitespace s \<noteq> []"
    then have "\<not> is_whitespace (hd (dropWhile is_whitespace s))"
      by (rule hd_dropWhile)
    moreover have "hd (dropWhile is_whitespace s) \<in> set (dropWhile is_whitespace s)"
      using ne by simp
    ultimately show False using all by blast
  qed
  then show "list_all is_whitespace s"
    by (simp add: list_all_iff)
next
  assume "list_all is_whitespace s"
  then show "trim s = []"
    by (auto simp: trim_def list_all_iff dest: set_dropWhileD)
qed

lemma trim_ends:
  assumes "trim s \<noteq> []"
  shows "\<not> is_whitespace (hd (trim s))" and "\<not> is_whitespace (last (trim s))"
proof -
  let ?a = "dropWhile is_whitespace s"
  let ?r = "dropWhile is_whitespace (rev ?a)"
  have r: "?r \<noteq> []" using assms by (simp add: trim_def)
  have a: "?a \<noteq> []" using r by (auto dest: set_dropWhileD)
  have "\<not> is_whitespace (hd ?r)" using r by (rule hd_dropWhile)
  then show "\<not> is_whitespace (last (trim s))"
    using r by (simp add: trim_def last_rev)
  have "rev ?a = takeWhile is_whitespace (rev ?a) @ ?r" by simp
  then have "last (rev ?a) = last ?r" using r by (metis last_appendR)
  then have "last ?r = hd ?a" using a by (simp add: last_rev)
  moreover have "\<not> is_whitespace (hd ?a)" using a by (rule hd_dropWhile)
  ultimately show "\<not> is_whitespace (hd (trim s))"
    using r by (simp add: trim_def hd_rev)
qed

lemma trim_trim: "trim (trim s) = trim s"
proof (cases "trim s = []")
  case True
  moreover have "trim [] = []" by (simp add: trim_def)
  ultimately show ?thesis by metis
next
  case False
  have 1: "dropWhile is_whitespace (trim s) = trim s"
    using False trim_ends(1) [OF False] by (simp add: dropWhile_eq_self_iff)
  have "rev (trim s) \<noteq> []" using False by simp
  moreover have "hd (rev (trim s)) = last (trim s)" using False by (simp add: hd_rev)
  ultimately have 2: "dropWhile is_whitespace (rev (trim s)) = rev (trim s)"
    using trim_ends(2) [OF False] by (simp add: dropWhile_eq_self_iff)
  show ?thesis
    unfolding trim_def [of "trim s"] by (simp only: 1 2 rev_rev_ident)
qed

lemma blank_to_null_Some: "blank_to_null (Some s) = (if list_all is_whitespace s then None else Some (trim s))"
  using trim_Nil_iff [of s] by (auto simp: blank_to_null_def)

lemma blank_to_null_again:
  "blank_to_null v = Some t \<Longrightarrow> blank_to_null (Some t) = Some t"
  by (auto simp: blank_to_null_def trim_trim split: option.splits if_splits)

section \<open>Issues of the schema\<close>

lemma issues_of_Nil_iff: "issues_of r = [] \<longleftrightarrow> (\<exists>x. r = Inr x) \<or> r = Inl []"
  by (cases r) (auto simp: issues_of_def)

lemma scientific_name_issues: "scientific_name_schema v \<noteq> Inl []"
  by (auto simp: scientific_name_schema_def Let_def split: jsval.splits)

lemma nullable_text_issues: "nullable_text_schema v \<noteq> Inl []"
  by (auto simp: nullable_text_schema_def split: jsval.splits)

lemma kingdom_issues: "kingdom_schema v \<noteq> Inl []"
  by (auto simp: kingdom_schema_def split: jsval.splits)

lemma total_population_issues: "total_population_schema v \<noteq> Inl []"
  by (auto simp: total_population_schema_def split: jsval.splits)

lemma image_issues: "image_schema hp v \<noteq> Inl []"
  by (auto simp: image_schema_def split: jsval.splits)

lemma all_issues_unfold:
  "all_issues hp d =
     map (Pair F_scientific_name) (field_issues hp F_scientific_name (d F_scientific_name)) @
     map (Pair F_common_name) (field_issues hp F_common_name (d F_common_name)) @
     map (Pair F_kingdom) (field_issues hp F_kingdom (d F_kingdom)) @
     map (Pair F_total_population) (field_issues hp F_total_population (d F_total_population)) @
     map (Pair F_image) (field_issues hp F_image (d F_image)) @
     map (Pair F_description) (field_issues hp F_description (d F_description))"
  by (simp add: all_issues_def field_names_def)

lemma find_map_Pair_other: "f \<noteq> g \<Longrightarrow> find (\<lambda>fi. fst fi = f) (map (Pair g) xs @ ys) = find (\<lambda>fi. fst fi = f) ys"
  by (induction xs) auto

lemma find_map_Pair_same: "find (\<lambda>fi. fst fi = f) (map (Pair f) xs @ ys) = (case xs of [] \<Rightarrow> find (\<lambda>fi. fst fi = f) ys | x # _ \<Rightarrow> Some (f, x))"
  by (cases xs) auto

lemma find_map_Pair_other': "f \<noteq> g \<Longrightarrow> find (\<lambda>fi. fst fi = f) (map (Pair g) xs) = None"
  by (induction xs) auto

lemma find_map_Pair_same': "find (\<lambda>fi. fst fi = f) (map (Pair f) xs) = (case xs of [] \<Rightarrow> None | x # _ \<Rightarrow> Some (f, x))"
  by (cases xs) auto

lemma first_issue_all_issues:
  "first_issue (all_issues hp d) f =
     (case field_issues hp f (d f) of [] \<Rightarrow> None | i # _ \<Rightarrow> Some i)"
  unfolding first_issue_def all_issues_unfold
  by (cases f)
     (simp_all add: find_map_Pair_other find_map_Pair_same find_map_Pair_other' find_map_Pair_same'
        split: list.splits)

lemma field_issues_Inl:
  "scientific_name_schema v = Inl is \<Longrightarrow> field_issues hp F_scientific_name v \<noteq> []"
  "nullable_text_schema v = Inl is \<Longrightarrow> field_issues hp F_common_name v \<noteq> []"
  "kingdom_schema v = Inl is \<Longrightarrow> field_issues hp F_kingdom v \<noteq> []"
  "total_population_schema v = Inl is' \<Longrightarrow> field_issues hp F_total_population v \<noteq> []"
  "image_schema hp v = Inl is \<Longrightarrow> field_issues hp F_image v \<noteq> []"
  "nullable_text_schema v = Inl is \<Longrightarrow> field_issues hp F_description v \<noteq> []"
  using scientific_name_issues [of v] nullable_text_issues [of v] kingdom_issues [of v]
    total_population_issues [of v] image_issues [of hp v]
  by (auto simp: issues_of_def)

lemma speciesSchema_Inl:
  assumes "speciesSchema hp d = Inl issues"
  shows "issues = all_issues hp d" and "\<exists>f. field_issues hp f (d f) \<noteq> []"
proof -
  show "issues = all_issues hp d"
    using assms by (auto simp: speciesSchema_def split: sum.splits)
  show "\<exists>f. field_issues hp f (d f) \<noteq> []"
    using assms by (auto simp: speciesSchema_def split: sum.splits dest: field_issues_Inl)
qed

lemma speciesSchema_Inr:
  assumes "speciesSchema hp d = Inr p"
  shows "field_issues hp f (d f) = []"
  using assms by (cases f) (auto simp: speciesSchema_def issues_of_def split: sum.splits)

lemma all_issues_Nil: "(\<And>f. field_issues hp f (d f) = []) \<Longrightarrow> all_issues hp d = []"
  by (simp add: all_issues_def)

lemma speciesSchema_valid:
  assumes "\<And>f. field_issues hp f (d f) = []"
  shows "\<exists>p. speciesSchema hp d = Inr p"
proof (cases "speciesSchema hp d")
  case (Inl issues)
  then show ?thesis using speciesSchema_Inl(2) [OF Inl] assms by blast
next
  case (Inr p)
  then show ?thesis by blast
qed

section \<open>Validation of the total population\<close>

lemma not_integer_5_2: "\<not> is_integer (Finite (5 / 2))"
  by code_simp

lemma total_population_rejects:
  "total_population_schema (JNum (Finite 0)) = Inl [Too_small 0 False, Too_small 1 True]"
  "total_population_schema (JNum (Finite (- 1))) = Inl [Too_small 0 False, Too_small 1 True]"
  "total_population_schema (JNum (Finite (5 / 2))) = Inl [Not_integer]"
  using not_integer_5_2 by (simp_all add: total_population_schema_def number_checks_def)

lemma total_population_accepts:
  "total_population_schema (JNum (Finite 1)) = Inr (Some (Finite 1))"
  "total_population_schema JNull = Inr None"
  by (simp_all add: total_population_schema_def number_checks_def)

lemma speciesSchema_total_population:
  "speciesSchema hp d = Inr p \<Longrightarrow> total_population_schema (d F_total_population) = Inr (total_population p)"
  by (auto simp: speciesSchema_def split: sum.splits)

text \<open>
  Claim C8.  A draft whose \<open>total_population\<close> is \<open>0\<close>, \<open>-1\<close> or \<open>2.5\<close> fails
  validation, with an issue on that field, whatever the other fields hold.  When the
  other fields are valid, \<open>total_population = 1\<close> passes and so does \<open>null\<close>, and the
  parsed object holds \<open>1\<close> and \<open>null\<close>.
\<close>

theorem total_population_validation:
  "(v \<in> {JNum (Finite 0), JNum (Finite (- 1)), JNum (Finite (5 / 2))} \<longrightarrow>
      (\<exists>issues. speciesSchema hp (d(F_total_population := v)) = Inl issues \<and>
         first_issue issues F_total_population \<noteq> None)) \<and>
   ((\<forall>f. f \<noteq> F_total_population \<longrightarrow> field_issues hp f (d f) = []) \<longrightarrow>
      (\<exists>p. speciesSchema hp (d(F_total_population := JNum (Finite 1))) = Inr p \<and>
         total_population p = Some (Finite 1)) \<and>
      (\<exists>p. speciesSchema hp (d(F_total_population := JNull)) = Inr p \<and>
         total_population p = None))"
proof (intro conjI impI)
  assume v: "v \<in> {JNum (Finite 0), JNum (Finite (- 1)), JNum (Finite (5 / 2))}"
  let ?d = "d(F_total_population := v)"
  from v have bad: "field_issues hp F_total_population (?d F_total_population) \<noteq> []"
    using total_population_rejects by (auto simp: issues_of_def)
  then obtain issues where iss: "speciesSchema hp ?d = Inl issues"
    using speciesSchema_Inr [of hp ?d _ F_total_population] by (cases "speciesSchema hp ?d") auto
  have "first_issue issues F_total_population \<noteq> None"
    using bad speciesSchema_Inl(1) [OF iss] first_issue_all_issues [of hp ?d F_total_population]
    by (auto split: list.splits)
  with iss show "\<exists>issues. speciesSchema hp ?d = Inl issues \<and> first_issue issues F_total_population \<noteq> None"
    by blast
next
  assume ok: "\<forall>f. f \<noteq> F_total_population \<longrightarrow> field_issues hp f (d f) = []"
  let ?d = "d(F_total_population := JNum (Finite 1))"
  have "\<And>f. field_issues hp f (?d f) = []"
    using ok total_population_accepts(1) by (simp add: issues_of_def)
  then obtain p where p: "speciesSchema hp ?d = Inr p"
    using speciesSchema_valid by blast
  then show "\<exists>p. speciesSchema hp ?d = Inr p \<and> total_population p = Some (Finite 1)"
    using speciesSchema_total_population [OF p] total_population_accepts(1) by simp
next
  assume ok: "\<forall>f. f \<noteq> F_total_population \<longrightarrow> field_issues hp f (d f) = []"
  let ?d = "d(F_total_population := JNull)"
  have "\<And>f. field_issues hp f (?d f) = []"
    using ok total_population_accepts(2) by (simp add: issues_of_def)
  then obtain p where p: "speciesSchema hp ?d = Inr p"
    using speciesSchema_valid by blast
  then show "\<exists>p. speciesSchema hp ?d = Inr p \<and> total_population p = None"
    using speciesSchema_total_population [OF p] total_population_accepts(2) by simp
qed

text \<open>The row of the scenarios is a valid draft.\<close>

lemma panthera_leo_valid: "field_issues hp f (defaultValues panthera_leo f) = []"
  by (cases f)
     (simp_all add: defaultValues_def panthera_leo_def issues_of_def scientific_name_schema_def
        nullable_text_schema_def kingdom_schema_def total_population_schema_def image_schema_def
        number_checks_def nullable_str_def nullable_num_def blank_to_null_def kingdoms_def js_def
        trim_def is_whitespace_def Let_def)

theorem total_population_validation_witness:
  "JNum (Finite (5 / 2)) \<in> {JNum (Finite 0), JNum (Finite (- 1)), JNum (Finite (5 / 2))} \<and>
   field_issues (\<lambda>_. True) F_scientific_name (defaultValues panthera_leo F_scientific_name) = [] \<and>
   field_issues (\<lambda>_. True) F_common_name (defaultValues panthera_leo F_common_name) = [] \<and>
   field_issues (\<lambda>_. True) F_kingdom (defaultValues panthera_leo F_kingdom) = [] \<and>
   field_issues (\<lambda>_. True) F_image (defaultValues panthera_leo F_image) = [] \<and>
   field_issues (\<lambda>_. True) F_description (defaultValues panthera_leo F_description) = [] \<and>
   (\<exists>issues. speciesSchema (\<lambda>_. True) ((defaultValues panthera_leo)(F_total_population := JNum (Finite (5 / 2)))) = Inl issues \<and>
         first_issue issues F_total_population \<noteq> None) \<and>
   (\<exists>p. speciesSchema (\<lambda>_. True) ((defaultValues panthera_leo)(F_total_population := JNum (Finite 1))) = Inr p \<and>
         total_population p = Some (Finite 1)) \<and>
   (\<exists>p. speciesSchema (\<lambda>_. True) ((defaultValues panthera_leo)(F_total_population := JNull)) = Inr p \<and>
         total_population p = None)"
  using total_population_validation [of "JNum (Finite (5 / 2))" "\<lambda>_. True" "defaultValues panthera_leo"]
    panthera_leo_valid [of "\<lambda>_. True"]
  by simp

section \<open>Normalization of the nullable text fields\<close>

lemma nullable_text_schema_JStr:
  "nullable_text_schema (JStr s) = Inr (if list_all is_whitespace s then None else Some (trim s))"
  by (simp add: nullable_text_schema_def blank_to_null_Some)

lemma image_schema_JStr:
  "image_schema hp (JStr s) =
     (if new_URL_ok hp s then Inr (if list_all is_whitespace s then None else Some (trim s))
      else Inl [Invalid_url])"
  by (simp add: image_schema_def blank_to_null_Some)

lemma speciesSchema_fields:
  assumes "speciesSchema hp d = Inr p"
  shows "scientific_name_schema (d F_scientific_name) = Inr (scientific_name p)"
    and "nullable_text_schema (d F_common_name) = Inr (common_name p)"
    and "kingdom_schema (d F_kingdom) = Inr (kingdom p)"
    and "image_schema hp (d F_image) = Inr (image p)"
    and "nullable_text_schema (d F_description) = Inr (description p)"
  using assms by (auto simp: speciesSchema_def split: sum.splits)

lemma url_demo_ok: "new_URL_ok (\<lambda>_. True) (js '' https://example.org/leo.png  '')"
  by code_simp

lemma url_demo_speciesSchema: "speciesSchema (\<lambda>_. True) url_demo = Inr url_demo_parsed"
  by code_simp


text \<open>
  Claim C2, as stated, fails for \<open>image\<close>: a string that is not a URL is rejected,
  by the field's schema and by the whole schema.
\<close>

theorem image_rejects_non_url:
  "image_schema (\<lambda>_. True) (JStr (js ''hello'')) = Inl [Invalid_url] \<and>
   speciesSchema (\<lambda>_. True) ((defaultValues panthera_leo)(F_image := JStr (js ''hello''))) =
     Inl [(F_image, Invalid_url)]"
  by code_simp

text \<open>
  Claim C2, amended.  For \<open>common_name\<close> and \<open>description\<close> every string input is
  accepted; for \<open>image\<close> a string that is not only white space is accepted exactly
  when it passes the URL check.  Whenever the schema accepts a draft, each of the three
  fields that holds a string is normalized: \<open>null\<close> if the string is only white
  space, the trimmed string otherwise.
\<close>

theorem nullable_text_normalization:
  "field_issues hp F_common_name (JStr s) = [] \<and>
   field_issues hp F_description (JStr s) = [] \<and>
   (\<not> list_all is_whitespace s \<longrightarrow>
      field_issues hp F_image (JStr s) = (if new_URL_ok hp s then [] else [Invalid_url])) \<and>
   (speciesSchema hp d = Inr p \<longrightarrow>
      (d F_common_name = JStr s \<longrightarrow>
         common_name p = (if list_all is_whitespace s then None else Some (trim s))) \<and>
      (d F_description = JStr s \<longrightarrow>
         description p = (if list_all is_whitespace s then None else Some (trim s))) \<and>
      (d F_image = JStr s \<longrightarrow>
         image p = (if list_all is_whitespace s then None else Some (trim s))))"
proof (intro conjI impI)
  show "field_issues hp F_common_name (JStr s) = []"
    by (simp add: nullable_text_schema_JStr issues_of_def)
  show "field_issues hp F_description (JStr s) = []"
    by (simp add: nullable_text_schema_JStr issues_of_def)
next
  assume "\<not> list_all is_whitespace s"
  then show "field_issues hp F_image (JStr s) = (if new_URL_ok hp s then [] else [Invalid_url])"
    by (simp add: image_schema_JStr issues_of_def)
next
  assume "speciesSchema hp d = Inr p" "d F_common_name = JStr s"
  then show "common_name p = (if list_all is_whitespace s then None else Some (trim s))"
    using speciesSchema_fields(2) [of hp d p] nullable_text_schema_JStr [of s] by simp
next
  assume "speciesSchema hp d = Inr p" "d F_description = JStr s"
  then show "description p = (if list_all is_whitespace s then None else Some (trim s))"
    using speciesSchema_fields(5) [of hp d p] nullable_text_schema_JStr [of s] by simp
next
  assume "speciesSchema hp d = Inr p" "d F_image = JStr s"
  then show "image p = (if list_all is_whitespace s then None else Some (trim s))"
    using speciesSchema_fields(4) [of hp d p] image_schema_JStr [of hp s]
    by (simp split: if_splits)
qed

lemma blank_demo_facts:
  "trim (js ''   '') = []" "trim (js ''  Lion '') = js ''Lion''"
  "list_all is_whitespace (js ''   '')" "\<not> list_all is_whitespace (js ''  Lion '')"
  by code_simp+

lemma url_demo_facts:
  "url_demo F_common_name = JStr (js ''  Lion '')"
  "url_demo F_description = JStr (js ''   '')"
  "url_demo F_image = JStr (js '' https://example.org/leo.png  '')"
  "\<not> list_all is_whitespace (js '' https://example.org/leo.png  '')"
  "trim (js '' https://example.org/leo.png  '') = js ''https://example.org/leo.png''"
  by (simp_all add: url_demo_def) code_simp+

theorem nullable_text_normalization_witness:
  "speciesSchema (\<lambda>_. True) url_demo = Inr url_demo_parsed \<and>
   url_demo F_common_name = JStr (js ''  Lion '') \<and>
   common_name url_demo_parsed = Some (js ''Lion'') \<and>
   url_demo F_description = JStr (js ''   '') \<and>
   description url_demo_parsed = None \<and>
   url_demo F_image = JStr (js '' https://example.org/leo.png  '') \<and>
   image url_demo_parsed = Some (js ''https://example.org/leo.png'') \<and>
   field_issues (\<lambda>_. True) F_common_name (JStr (js ''  Lion '')) = [] \<and>
   \<not> list_all is_whitespace (js '' https://example.org/leo.png  '') \<and>
   field_issues (\<lambda>_. True) F_image (JStr (js '' https://example.org/leo.png  '')) = []"
  using nullable_text_normalization [of "\<lambda>_. True" "js ''  Lion ''" url_demo url_demo_parsed]
    nullable_text_normalization [of "\<lambda>_. True" "js ''   ''" url_demo url_demo_parsed]
    nullable_text_normalization
      [of "\<lambda>_. True" "js '' https://example.org/leo.png  ''" url_demo url_demo_parsed]
    url_demo_speciesSchema url_demo_facts blank_demo_facts url_demo_ok
  by (simp only: simp_thms if_False if_True)

lemma scientific_name_schema_again:
  "scientific_name_schema v = Inr sn \<Longrightarrow> scientific_name_schema (JStr sn) = Inr sn"
  by (auto simp: scientific_name_schema_def Let_def trim_trim split: jsval.splits if_splits)

lemma blank_to_null_None: "blank_to_null None = None"
  by (simp add: blank_to_null_def)

lemma nullable_text_schema_again:
  assumes "nullable_text_schema v = Inr x"
  shows "nullable_text_schema (nullable_str x) = Inr x"
proof (cases x)
  case None
  then show ?thesis
    by (simp add: nullable_text_schema_def nullable_str_def blank_to_null_None)
next
  case (Some t)
  obtain w where "blank_to_null w = x"
    using assms by (auto simp: nullable_text_schema_def split: jsval.splits)
  then have "blank_to_null (Some t) = Some t"
    using Some blank_to_null_again by blast
  then show ?thesis
    using Some by (simp add: nullable_text_schema_def nullable_str_def)
qed

lemma kingdom_schema_again:
  "kingdom_schema v = Inr k \<Longrightarrow> kingdom_schema (JStr k) = Inr k"
  by (auto simp: kingdom_schema_def split: jsval.splits if_splits)

lemma total_population_schema_again:
  "total_population_schema v = Inr n \<Longrightarrow> total_population_schema (nullable_num n) = Inr n"
  by (cases n) (auto simp: total_population_schema_def nullable_num_def split: jsval.splits if_splits)

lemma image_schema_again:
  assumes "image_schema hp v = Inr x"
  shows "image_schema hp (nullable_str x) =
     (case x of None \<Rightarrow> Inr None
      | Some u \<Rightarrow> if new_URL_ok hp u then Inr (Some u) else Inl [Invalid_url])"
proof (cases x)
  case None
  then show ?thesis
    by (simp add: image_schema_def nullable_str_def blank_to_null_None)
next
  case (Some t)
  obtain w where "blank_to_null w = x"
    using assms by (auto simp: image_schema_def split: jsval.splits if_splits)
  then have "blank_to_null (Some t) = Some t"
    using Some blank_to_null_again by blast
  then show ?thesis
    using Some by (simp add: image_schema_def nullable_str_def)
qed

text \<open>
  Claim C9, amended.  Validating the output of a successful validation again changes
  no field.  It succeeds with the same object when \<open>image\<close> is \<open>null\<close> or its trimmed
  string passes the URL check itself; otherwise it fails with the single issue that
  \<open>image\<close> is not a URL.
\<close>

theorem revalidation_of_payload:
  assumes "speciesSchema hp d = Inr p"
  shows "speciesSchema hp (as_values p) =
           (case image p of
              None \<Rightarrow> Inr p
            | Some u \<Rightarrow> if new_URL_ok hp u then Inr p else Inl [(F_image, Invalid_url)])"
proof -
  note f = speciesSchema_fields [OF assms] speciesSchema_total_population [OF assms]
  have sn: "scientific_name_schema (JStr (scientific_name p)) = Inr (scientific_name p)"
    using f(1) by (rule scientific_name_schema_again)
  have cn: "nullable_text_schema (nullable_str (common_name p)) = Inr (common_name p)"
    using f(2) by (rule nullable_text_schema_again)
  have k: "kingdom_schema (JStr (kingdom p)) = Inr (kingdom p)"
    using f(3) by (rule kingdom_schema_again)
  have tp: "total_population_schema (nullable_num (total_population p)) = Inr (total_population p)"
    using f(6) by (rule total_population_schema_again)
  have de: "nullable_text_schema (nullable_str (description p)) = Inr (description p)"
    using f(5) by (rule nullable_text_schema_again)
  note im = image_schema_again [OF f(4)]
  show ?thesis
  proof (cases "image_schema hp (nullable_str (image p))")
    case (Inr x)
    then have "x = image p" and "case image p of None \<Rightarrow> True | Some u \<Rightarrow> new_URL_ok hp u"
      using im by (auto split: option.splits if_splits)
    then show ?thesis
      using Inr by (auto simp: speciesSchema_def sn cn k tp de split: option.splits)
  next
    case (Inl e)
    then have e: "e = [Invalid_url]" and "case image p of None \<Rightarrow> False | Some u \<Rightarrow> \<not> new_URL_ok hp u"
      using im by (auto split: option.splits if_splits)
    then show ?thesis
      using Inl
      by (auto simp: speciesSchema_def all_issues_unfold issues_of_def sn cn k tp de
          split: option.splits)
  qed
qed

text \<open>
  Claim C9, as stated, fails: the URL check sees the string as typed, the stored
  string is the trimmed one.  \<open>foo://u@\<close> followed by a no-break space is a URL (the
  no-break space is the host); trimmed, it has credentials and no host, and is rejected.
\<close>

theorem revalidation_rejects_trimmed_image:
  "speciesSchema (\<lambda>_. True) nbsp_host = Inr nbsp_host_parsed \<and>
   speciesSchema (\<lambda>_. True) (as_values nbsp_host_parsed) = Inl [(F_image, Invalid_url)]"
  by code_simp

lemma url_demo_parsed_image:
  "image url_demo_parsed = Some (js ''https://example.org/leo.png'')"
  "new_URL_ok (\<lambda>_. True) (js ''https://example.org/leo.png'')"
  by (simp add: url_demo_parsed_def) code_simp

theorem revalidation_of_payload_witness:
  "speciesSchema (\<lambda>_. True) url_demo = Inr url_demo_parsed \<and>
   speciesSchema (\<lambda>_. True) (as_values url_demo_parsed) = Inr url_demo_parsed"
  using revalidation_of_payload [OF url_demo_speciesSchema] url_demo_speciesSchema
    url_demo_parsed_image
  by (simp only: option.case if_True simp_thms)

section \<open>Submitting and deleting\<close>

lemma panthera_leo_speciesSchema:
  "speciesSchema (\<lambda>_. True) (defaultValues panthera_leo) = Inr panthera_leo_parsed"
  by code_simp

lemma click_rendered:
  "author sp = currentUser \<Longrightarrow> isEditing s \<Longrightarrow>
     step hp lit sp currentUser s (Click Confirm answer) = Some (handleSubmit hp sp s)"
  "author sp = currentUser \<Longrightarrow> \<not> isEditing s \<Longrightarrow>
     step hp lit sp currentUser s (Click Delete_Species answer) = Some (handleDelete_call sp answer s)"
  by (simp_all add: buttons_def)

lemma handleSubmit_valid:
  "speciesSchema hp (form_values (form s)) = Inr input \<Longrightarrow>
   handleSubmit hp sp s =
     (s\<lparr>form := (form s)\<lparr>form_errors := (\<lambda>_. None)\<rparr>,
        awaiting := awaiting s @ [Update_request input]\<rparr>,
      [Remote_update (species_id sp) input])"
  by (simp add: handleSubmit_def onSubmit_call_def)

lemma handleSubmit_invalid:
  "speciesSchema hp (form_values (form s)) = Inl issues \<Longrightarrow>
   handleSubmit hp sp s = (s\<lparr>form := (form s)\<lparr>form_errors := first_issue issues\<rparr>\<rparr>, [])"
  by (simp add: handleSubmit_def)

lemma settle_last:
  "step hp lit sp currentUser (s\<lparr>awaiting := awaiting s @ [r]\<rparr>) (Settle (length (awaiting s)) error) =
     Some (resume sp r error s)"
  by simp

text \<open>
  Claim C1 does not hold of the code.  The author confirms the deletion and the remote
  delete returns an error: after the alert, \<open>handleDelete\<close> goes on to refresh the
  router and to toast that the species was deleted.
\<close>

theorem delete_failure_reports_success:
  "run (\<lambda>_. True) (\<lambda>_. NaN) panthera_leo ''u1'' (initial panthera_leo)
     [Click Delete_Species True, Settle 0 (Some (js ''permission denied''))] =
   Some (initial panthera_leo,
     [Remote_delete 7,
      Alert (js ''An error occurred while deleting the species.''),
      Router_refresh,
      Toast (js ''Species deleted successfully.'')
        (js ''The species'' @ js '' Panthera leo '' @ js ''has been deleted.'') False])"
  by (simp add: buttons_def handleDelete_call_def resume_def handleDelete_resume_def initial_def
      panthera_leo_def)

text \<open>
  Claim C3 does not hold of the code for the kingdom.  The five inputs are read-only
  exactly outside edit mode; the kingdom's \<open>Select\<close> is never read-only.
\<close>

theorem read_only_controls:
  "read_only (field_control s f) \<longleftrightarrow> f \<noteq> F_kingdom \<and> \<not> isEditing s"
  by (cases f) (simp_all add: read_only_def)


lemma run_two:
  "step hp lit sp cu s e1 = Some (s1, o1) \<Longrightarrow> step hp lit sp cu s1 e2 = Some (s2, o2) \<Longrightarrow>
   run hp lit sp cu s [e1, e2] = Some (s2, o1 @ o2)"
  by simp

lemma submit_then_settle:
  assumes "author sp = currentUser" "isEditing s"
    and "speciesSchema hp (form_values (form s)) = Inr input"
  shows "run hp lit sp currentUser s [Click Confirm answer, Settle (length (awaiting s)) error] =
           Some (case onSubmit_resume input error (s\<lparr>form := (form s)\<lparr>form_errors := (\<lambda>_. None)\<rparr>\<rparr>) of
                   (s', out) \<Rightarrow> (s', Remote_update (species_id sp) input # out))"
proof -
  let ?s0 = "s\<lparr>form := (form s)\<lparr>form_errors := (\<lambda>_. None)\<rparr>\<rparr>"
  have 1: "step hp lit sp currentUser s (Click Confirm answer) =
             Some (?s0\<lparr>awaiting := awaiting ?s0 @ [Update_request input]\<rparr>,
                   [Remote_update (species_id sp) input])"
    using click_rendered(1) [OF assms(1,2), of hp lit answer] handleSubmit_valid [OF assms(3), of sp]
    by (simp del: step.simps)
  have 2: "step hp lit sp currentUser (?s0\<lparr>awaiting := awaiting ?s0 @ [Update_request input]\<rparr>)
             (Settle (length (awaiting s)) error) = Some (onSubmit_resume input error ?s0)"
    using settle_last [of hp lit sp currentUser ?s0 "Update_request input" error]
    by (simp add: resume_def)
  obtain s' out where r: "onSubmit_resume input error ?s0 = (s', out)"
    by (cases "onSubmit_resume input error ?s0")
  show ?thesis
    using run_two [OF 1 2 [unfolded r]] r by simp
qed

text \<open>
  Claim C6.  The author submits a valid draft and the remote update returns an error:
  one update was sent, an error toast is shown, and the state is the one before the
  submit (edit mode, values and default values as they were, no error shown in the
  form).  Whenever the response arrives, the rest of \<open>onSubmit\<close> changes nothing and
  only shows the toast.
\<close>

theorem update_failure_keeps_draft:
  assumes "author sp = currentUser" "isEditing s"
    and "speciesSchema hp (form_values (form s)) = Inr input"
  shows "run hp lit sp currentUser s
           [Click Confirm answer, Settle (length (awaiting s)) (Some message)] =
         Some (s\<lparr>form := (form s)\<lparr>form_errors := (\<lambda>_. None)\<rparr>\<rparr>,
               [Remote_update (species_id sp) input,
                Toast (js ''Something went wrong.'') message True]) \<and>
         onSubmit_resume input (Some message) later =
           (later, [Toast (js ''Something went wrong.'') message True])"
  using submit_then_settle [OF assms] by (simp add: onSubmit_resume_def)

text \<open>
  Claim C7.  The author submits a valid draft and the remote update succeeds: the
  parsed object was sent; it becomes the form's values and default values, edit mode
  ends, the router is refreshed and the success toast is shown.
\<close>

theorem update_success_adopts_payload:
  assumes "author sp = currentUser" "isEditing s"
    and "speciesSchema hp (form_values (form s)) = Inr input"
  shows "run hp lit sp currentUser s [Click Confirm answer, Settle (length (awaiting s)) None] =
         Some (\<lparr>isEditing = False,
                form = \<lparr>form_values = as_values input, form_defaults = as_values input,
                        form_errors = (\<lambda>_. None)\<rparr>,
                awaiting = awaiting s\<rparr>,
               [Remote_update (species_id sp) input,
                Router_refresh,
                Toast (js ''Changes saved!'')
                  (js ''Saved your changes to '' @ scientific_name input @ js ''.'') False])"
  using submit_then_settle [OF assms] by (simp add: onSubmit_resume_def form_reset_def)

text \<open>
  Claim C5.  The author submits a draft the schema rejects: nothing is sent, edit mode
  and the draft stay as they are, and exactly the fields with an issue get an error.
\<close>

theorem invalid_submit_stays_local:
  assumes "author sp = currentUser" "isEditing s"
    and "speciesSchema hp (form_values (form s)) = Inl issues"
  shows "\<exists>s'. step hp lit sp currentUser s (Click Confirm answer) = Some (s', []) \<and>
           isEditing s' \<and> awaiting s' = awaiting s \<and>
           form_values (form s') = form_values (form s) \<and>
           form_defaults (form s') = form_defaults (form s) \<and>
           (\<forall>f. form_errors (form s') f = None \<longleftrightarrow>
                  field_issues hp f (form_values (form s) f) = []) \<and>
           (\<exists>f. form_errors (form s') f \<noteq> None)"
proof -
  let ?s' = "s\<lparr>form := (form s)\<lparr>form_errors := first_issue issues\<rparr>\<rparr>"
  have st: "step hp lit sp currentUser s (Click Confirm answer) = Some (?s', [])"
    using click_rendered(1) [OF assms(1,2), of hp lit answer] handleSubmit_invalid [OF assms(3), of sp]
    by (simp del: step.simps)
  have iss: "issues = all_issues hp (form_values (form s))"
    using assms(3) by (rule speciesSchema_Inl(1))
  have err: "form_errors (form ?s') f = None \<longleftrightarrow> field_issues hp f (form_values (form s) f) = []" for f
    by (simp add: iss first_issue_all_issues split: list.splits)
  obtain f where "field_issues hp f (form_values (form s) f) \<noteq> []"
    using speciesSchema_Inl(2) [OF assms(3)] by blast
  then have "form_errors (form ?s') f \<noteq> None"
    using err [of f] by blast
  then have ex: "\<exists>f. form_errors (form ?s') f \<noteq> None" by blast
  have "isEditing ?s' \<and> awaiting ?s' = awaiting s \<and>
        form_values (form ?s') = form_values (form s) \<and>
        form_defaults (form ?s') = form_defaults (form s)"
    using assms(2) by simp
  with st err ex show ?thesis by blast
qed

text \<open>
  Claim C4, amended.  The component keeps no record of the calls it awaits.  In edit
  mode a click on Confirm with a valid draft sends an update, outside edit mode a
  confirmed click on Delete sends a delete, each added to whatever is already awaited.
\<close>

theorem submit_and_delete_ignore_in_flight:
  assumes "author sp = currentUser"
  shows "(isEditing s \<and> speciesSchema hp (form_values (form s)) = Inr input \<longrightarrow>
            (\<exists>s'. step hp lit sp currentUser s (Click Confirm answer) =
                     Some (s', [Remote_update (species_id sp) input]) \<and>
                   awaiting s' = awaiting s @ [Update_request input])) \<and>
         (\<not> isEditing s \<longrightarrow>
            step hp lit sp currentUser s (Click Delete_Species True) =
              Some (s\<lparr>awaiting := awaiting s @ [Delete_request]\<rparr>, [Remote_delete (species_id sp)]))"
proof (intro conjI impI)
  assume a: "isEditing s \<and> speciesSchema hp (form_values (form s)) = Inr input"
  then have "step hp lit sp currentUser s (Click Confirm answer) = Some (handleSubmit hp sp s)"
    using assms click_rendered(1) by blast
  then show "\<exists>s'. step hp lit sp currentUser s (Click Confirm answer) =
                 Some (s', [Remote_update (species_id sp) input]) \<and>
               awaiting s' = awaiting s @ [Update_request input]"
    using a handleSubmit_valid [of hp s input sp] by (simp del: step.simps)
next
  assume "\<not> isEditing s"
  then have "step hp lit sp currentUser s (Click Delete_Species True) =
               Some (handleDelete_call sp True s)"
    using assms click_rendered(2) by blast
  then show "step hp lit sp currentUser s (Click Delete_Species True) =
               Some (s\<lparr>awaiting := awaiting s @ [Delete_request]\<rparr>, [Remote_delete (species_id sp)])"
    by (simp add: handleDelete_call_def del: step.simps)
qed

text \<open>
  Claim C4, as stated, fails: the author starts editing and clicks Confirm twice; the
  second update is sent while the first still awaits its response.
\<close>

theorem second_submit_while_in_flight:
  "map_option (\<lambda>(s, out). (isEditing s, awaiting s, out))
     (run (\<lambda>_. True) (\<lambda>_. NaN) panthera_leo ''u1'' (initial panthera_leo)
        [Click Edit_Species False, Click Confirm False, Click Confirm False]) =
   Some (True,
         [Update_request panthera_leo_parsed, Update_request panthera_leo_parsed],
         [Remote_update 7 panthera_leo_parsed, Remote_update 7 panthera_leo_parsed])"
  by code_simp


lemma leo_facts:
  "author panthera_leo = ''u1''"
  "species_id panthera_leo = 7"
  "isEditing editing_leo" "awaiting editing_leo = []"
  "form_values (form editing_leo) = defaultValues panthera_leo"
  "isEditing editing_leo_busy" "awaiting editing_leo_busy = [Update_request panthera_leo_parsed]"
  "form_values (form editing_leo_busy) = defaultValues panthera_leo"
  "\<not> isEditing viewing_leo_busy" "awaiting viewing_leo_busy = [Delete_request]"
  "isEditing editing_leo_negative"
  by (simp_all add: panthera_leo_def editing_leo_def editing_leo_busy_def viewing_leo_busy_def
      editing_leo_negative_def initial_def form_reset_def)

lemma editing_leo_valid:
  "speciesSchema (\<lambda>_. True) (form_values (form editing_leo)) = Inr panthera_leo_parsed"
  "speciesSchema (\<lambda>_. True) (form_values (form editing_leo_busy)) = Inr panthera_leo_parsed"
  by (simp_all only: leo_facts panthera_leo_speciesSchema)

lemma editing_leo_negative_invalid:
  "speciesSchema (\<lambda>_. True) (form_values (form editing_leo_negative)) =
     Inl [(F_total_population, Too_small 0 False), (F_total_population, Too_small 1 True)]"
  by code_simp

text \<open>Both states with a call in flight are reached from the opened dialog.\<close>

lemma busy_states_reachable:
  "run (\<lambda>_. True) (\<lambda>_. NaN) panthera_leo ''u1'' (initial panthera_leo)
     [Click Edit_Species False, Click Confirm False] =
   Some (editing_leo_busy, [Remote_update 7 panthera_leo_parsed])"
  "run (\<lambda>_. True) (\<lambda>_. NaN) panthera_leo ''u1'' (initial panthera_leo)
     [Click Delete_Species True] =
   Some (viewing_leo_busy, [Remote_delete 7])"
proof -
  have e: "step (\<lambda>_. True) (\<lambda>_. NaN) panthera_leo ''u1'' (initial panthera_leo) (Click Edit_Species False) =
             Some (editing_leo, [])"
    by (simp add: buttons_def startEditing_def editing_leo_def initial_def panthera_leo_def)
  have c: "step (\<lambda>_. True) (\<lambda>_. NaN) panthera_leo ''u1'' editing_leo (Click Confirm False) =
             Some (editing_leo_busy, [Remote_update 7 panthera_leo_parsed])"
    using click_rendered(1) [OF leo_facts(1) leo_facts(3), of "\<lambda>_. True" "\<lambda>_. NaN" False]
      handleSubmit_valid [OF editing_leo_valid(1), of panthera_leo]
    by (simp add: editing_leo_busy_def editing_leo_def initial_def form_reset_def leo_facts(2)
        del: step.simps)
  show "run (\<lambda>_. True) (\<lambda>_. NaN) panthera_leo ''u1'' (initial panthera_leo)
     [Click Edit_Species False, Click Confirm False] =
   Some (editing_leo_busy, [Remote_update 7 panthera_leo_parsed])"
    using run_two [OF e c] by simp
  show "run (\<lambda>_. True) (\<lambda>_. NaN) panthera_leo ''u1'' (initial panthera_leo)
     [Click Delete_Species True] =
   Some (viewing_leo_busy, [Remote_delete 7])"
    by (simp add: buttons_def handleDelete_call_def viewing_leo_busy_def initial_def
        panthera_leo_def)
qed

theorem update_failure_keeps_draft_witness:
  "author panthera_leo = ''u1'' \<and> isEditing editing_leo \<and>
   speciesSchema (\<lambda>_. True) (form_values (form editing_leo)) = Inr panthera_leo_parsed \<and>
   run (\<lambda>_. True) (\<lambda>_. NaN) panthera_leo ''u1'' editing_leo
     [Click Confirm False, Settle (length (awaiting editing_leo)) (Some (js ''permission denied''))] =
   Some (editing_leo\<lparr>form := (form editing_leo)\<lparr>form_errors := (\<lambda>_. None)\<rparr>\<rparr>,
         [Remote_update (species_id panthera_leo) panthera_leo_parsed,
          Toast (js ''Something went wrong.'') (js ''permission denied'') True])"
  using update_failure_keeps_draft [OF leo_facts(1) leo_facts(3) editing_leo_valid(1),
      of "\<lambda>_. NaN" False "js ''permission denied''" editing_leo]
    leo_facts(1) leo_facts(3) editing_leo_valid(1)
  by blast

theorem update_success_adopts_payload_witness:
  "author panthera_leo = ''u1'' \<and> isEditing editing_leo \<and>
   speciesSchema (\<lambda>_. True) (form_values (form editing_leo)) = Inr panthera_leo_parsed \<and>
   run (\<lambda>_. True) (\<lambda>_. NaN) panthera_leo ''u1'' editing_leo
     [Click Confirm False, Settle (length (awaiting editing_leo)) None] =
   Some (\<lparr>isEditing = False,
          form = \<lparr>form_values = as_values panthera_leo_parsed,
                  form_defaults = as_values panthera_leo_parsed,
                  form_errors = (\<lambda>_. None)\<rparr>,
          awaiting = awaiting editing_leo\<rparr>,
         [Remote_update (species_id panthera_leo) panthera_leo_parsed,
          Router_refresh,
          Toast (js ''Changes saved!'')
            (js ''Saved your changes to '' @ scientific_name panthera_leo_parsed @ js ''.'') False])"
  using update_success_adopts_payload [OF leo_facts(1) leo_facts(3) editing_leo_valid(1),
      of "\<lambda>_. NaN" False]
    leo_facts(1) leo_facts(3) editing_leo_valid(1)
  by blast

theorem invalid_submit_stays_local_witness:
  "author panthera_leo = ''u1'' \<and> isEditing editing_leo_negative \<and>
   speciesSchema (\<lambda>_. True) (form_values (form editing_leo_negative)) =
     Inl [(F_total_population, Too_small 0 False), (F_total_population, Too_small 1 True)] \<and>
   (\<exists>s'. step (\<lambda>_. True) (\<lambda>_. NaN) panthera_leo ''u1'' editing_leo_negative (Click Confirm False) =
           Some (s', []) \<and>
         isEditing s' \<and> awaiting s' = awaiting editing_leo_negative \<and>
         form_values (form s') = form_values (form editing_leo_negative) \<and>
         form_defaults (form s') = form_defaults (form editing_leo_negative) \<and>
         (\<forall>f. form_errors (form s') f = None \<longleftrightarrow>
                field_issues (\<lambda>_. True) f (form_values (form editing_leo_negative) f) = []) \<and>
         (\<exists>f. form_errors (form s') f \<noteq> None))"
  using invalid_submit_stays_local [OF leo_facts(1) leo_facts(11) editing_leo_negative_invalid,
      of "\<lambda>_. NaN" False]
    leo_facts(1) leo_facts(11) editing_leo_negative_invalid
  by blast

theorem submit_and_delete_ignore_in_flight_witness:
  "author panthera_leo = ''u1'' \<and>
   run (\<lambda>_. True) (\<lambda>_. NaN) panthera_leo ''u1'' (initial panthera_leo)
     [Click Edit_Species False, Click Confirm False] =
     Some (editing_leo_busy, [Remote_update 7 panthera_leo_parsed]) \<and>
   run (\<lambda>_. True) (\<lambda>_. NaN) panthera_leo ''u1'' (initial panthera_leo)
     [Click Delete_Species True] =
     Some (viewing_leo_busy, [Remote_delete 7]) \<and>
   isEditing editing_leo_busy \<and>
   awaiting editing_leo_busy = [Update_request panthera_leo_parsed] \<and>
   speciesSchema (\<lambda>_. True) (form_values (form editing_leo_busy)) = Inr panthera_leo_parsed \<and>
   (\<exists>s'. step (\<lambda>_. True) (\<lambda>_. NaN) panthera_leo ''u1'' editing_leo_busy (Click Confirm False) =
           Some (s', [Remote_update 7 panthera_leo_parsed]) \<and>
         awaiting s' = [Update_request panthera_leo_parsed, Update_request panthera_leo_parsed]) \<and>
   \<not> isEditing viewing_leo_busy \<and>
   awaiting viewing_leo_busy = [Delete_request] \<and>
   step (\<lambda>_. True) (\<lambda>_. NaN) panthera_leo ''u1'' viewing_leo_busy (Click Delete_Species True) =
     Some (viewing_leo_busy\<lparr>awaiting := [Delete_request, Delete_request]\<rparr>, [Remote_delete 7])"
  using submit_and_delete_ignore_in_flight [OF leo_facts(1),
      of editing_leo_busy "\<lambda>_. True" panthera_leo_parsed "\<lambda>_. NaN" False]
    submit_and_delete_ignore_in_flight [OF leo_facts(1),
      of viewing_leo_busy "\<lambda>_. True" panthera_leo_parsed "\<lambda>_. NaN" False]
    leo_facts editing_leo_valid(2) busy_states_reachable
  by (simp del: step.simps run.simps)

section \<open>The population input\<close>

lemma step_population_edit:
  assumes "step hp lit sp currentUser s (Change F_total_population text) = Some (s', out)"
  shows "form_values (form s') F_total_population = JNum (unary_plus lit text)"
  using assms by (auto simp: field_onChange_def Let_def split: if_splits)

lemma run_population_edits:
  assumes "evs \<noteq> []" "list_all population_edit evs"
    and "run hp lit sp currentUser s evs = Some (s', out)"
  shows "\<exists>n. form_values (form s') F_total_population = JNum n"
  using assms
proof (induction evs arbitrary: s out)
  case Nil
  then show ?case by simp
next
  case (Cons ev evs)
  from Cons.prems(2) obtain entered where ev: "ev = Change F_total_population entered"
    by (cases ev) auto
  from Cons.prems(3) obtain s1 o1 where
    st: "step hp lit sp currentUser s ev = Some (s1, o1)"
    by (auto simp del: step.simps split: option.splits)
  from Cons.prems(3) st obtain o2 where
    rest: "run hp lit sp currentUser s1 evs = Some (s', o2)"
    by (auto simp del: step.simps)
  show ?case
  proof (cases "evs = []")
    case True
    then have "s' = s1" using rest by simp
    then show ?thesis using step_population_edit [OF st [unfolded ev]] by blast
  next
    case False
    then show ?thesis using Cons.IH [OF False _ rest] Cons.prems(2) by simp
  qed
qed

text \<open>
  Claim C10.  Clearing the population input stores the number \<open>0\<close>, which the schema
  rejects as too small.  After any non-empty sequence of edits of that input the stored
  value is a number, never \<open>null\<close>; the form starts with \<open>null\<close> exactly when the
  row's population is \<open>null\<close>.
\<close>

theorem total_population_input_never_null:
  "changed_value lit F_total_population [] = Some (JNum (Finite 0)) \<and>
   field_issues hp F_total_population (JNum (Finite 0)) = [Too_small 0 False, Too_small 1 True] \<and>
   (evs \<noteq> [] \<and> list_all population_edit evs \<and>
    run hp lit sp currentUser s evs = Some (s', out) \<longrightarrow>
      (\<exists>n. form_values (form s') F_total_population = JNum n) \<and>
      form_values (form s') F_total_population \<noteq> JNull) \<and>
   (form_values (form (initial sp)) F_total_population = JNull \<longleftrightarrow> total_population sp = None)"
proof (intro conjI impI)
  show "changed_value lit F_total_population [] = Some (JNum (Finite 0))"
    by (simp add: unary_plus_def trim_def)
  show "field_issues hp F_total_population (JNum (Finite 0)) = [Too_small 0 False, Too_small 1 True]"
    by (simp add: total_population_rejects(1) issues_of_def)
  show "form_values (form (initial sp)) F_total_population = JNull \<longleftrightarrow> total_population sp = None"
    by (simp add: initial_def form_reset_def defaultValues_def nullable_num_def split: option.splits)
next
  assume a: "evs \<noteq> [] \<and> list_all population_edit evs \<and>
    run hp lit sp currentUser s evs = Some (s', out)"
  then show n: "\<exists>n. form_values (form s') F_total_population = JNum n"
    using run_population_edits by blast
  then show "form_values (form s') F_total_population \<noteq> JNull"
    by auto
qed

lemma clearing_edits_facts:
  "clearing_edits \<noteq> []" "list_all population_edit clearing_edits"
  by (simp_all add: clearing_edits_def)

lemma clearing_edits_run:
  "map_option (\<lambda>(s, out). (form_values (form s) F_total_population, form_errors (form s) F_total_population, out))
     (run (\<lambda>_. True) (\<lambda>_. NaN) panthera_leo ''u1'' editing_leo clearing_edits) =
   Some (JNum (Finite 0), Some (Too_small 0 False), [])"
  by code_simp

theorem total_population_input_never_null_witness:
  "clearing_edits \<noteq> [] \<and> list_all population_edit clearing_edits \<and>
   (\<exists>s' out. run (\<lambda>_. True) (\<lambda>_. NaN) panthera_leo ''u1'' editing_leo clearing_edits = Some (s', out) \<and>
      form_values (form s') F_total_population = JNum (Finite 0) \<and>
      form_values (form s') F_total_population \<noteq> JNull)"
proof -
  obtain s' out where r:
    "run (\<lambda>_. True) (\<lambda>_. NaN) panthera_leo ''u1'' editing_leo clearing_edits = Some (s', out)"
    and v: "form_values (form s') F_total_population = JNum (Finite 0)"
    using clearing_edits_run by auto
  have "form_values (form s') F_total_population \<noteq> JNull"
    using total_population_input_never_null
      [of "\<lambda>_. NaN" "\<lambda>_. True" clearing_edits panthera_leo "''u1''" editing_leo s' out]
      clearing_edits_facts r
    by blast
  with r v clearing_edits_facts show ?thesis by blast
qed

end
